theory Spec2Isabelle
  imports Complex_Main
begin

section \<open>Unit tables and unit conversion (hardware.py, lines 29--182)\<close>

text \<open>
  Python floats are modelled by exact reals: every decimal literal of the source is the
  rational number it denotes, and \<open>np.pi\<close> is the decimal numpy prints for it.
  Python exceptions are values of type \<open>error\<close>, named after the exception class.
  The \<open>ValueError\<close> of the setters is the specification's \<open>WrongMode\<close>, the
  \<open>AssertionError\<close> of the gain routines is its \<open>InvalidGains\<close>.
\<close>

datatype error =
  KeyError | ValueError | AssertionError | AttributeError | TypeError | ZeroDivisionError

definition np_pi :: real where
  "np_pi = 3.141592653589793"

definition MOTOR_COUNT_PER_REV :: real where
  "MOTOR_COUNT_PER_REV = 16384"

definition NM_PER_AMP :: real where
  "NM_PER_AMP = 0.1133"

definition NM_PER_MILLIAMP :: real where
  "NM_PER_MILLIAMP = NM_PER_AMP / 1000"

definition RAD_PER_COUNT :: real where
  "RAD_PER_COUNT = 2 * np_pi / MOTOR_COUNT_PER_REV"

definition ALL_UNITS :: "(string \<times> (string \<times> real) list) list" where
  "ALL_UNITS =
    [(''force'', [(''N'', 1.0), (''lbf'', 4.4482216152605), (''kgf'', 9.80665)]),
     (''torque'', [(''N-m'', 1.0), (''lbf-in'', 0.1129848290276167),
        (''lbf-ft'', 1.3558179483314004), (''kgf-cm'', 0.0980665), (''kgf-m'', 0.980665)]),
     (''stiffness'', [(''N/rad'', 1.0), (''N/deg'', 0.017453292519943295),
        (''lbf/rad'', 0.224809), (''lbf/deg'', 0.003490659),
        (''kgf/rad'', 1.8518518518518519), (''kgf/deg'', 0.031746031746031744)]),
     (''damping'', [(''N/(rad/s)'', 1.0), (''N/(deg/s)'', 0.017453292519943295),
        (''lbf/(rad/s)'', 0.224809), (''lbf/(deg/s)'', 0.003490659),
        (''kgf/(rad/s)'', 1.8518518518518519), (''kgf/(deg/s)'', 0.031746031746031744)]),
     (''length'', [(''m'', 1.0), (''cm'', 0.01), (''in'', 0.0254), (''ft'', 0.3048)]),
     (''angle'', [(''rad'', 1.0), (''deg'', 0.017453292519943295)]),
     (''mass'', [(''kg'', 1.0), (''g'', 0.001), (''lb'', 0.45359237)]),
     (''velocity'', [(''rad/s'', 1.0), (''deg/s'', 0.017453292519943295),
        (''rpm'', 0.10471975511965977)]),
     (''acceleration'', [(''rad/s^2'', 1.0), (''deg/s^2'', 0.017453292519943295)]),
     (''time'', [(''s'', 1.0), (''ms'', 0.001), (''us'', 0.000001)]),
     (''current'', [(''mA'', 1), (''A'', 1000)]),
     (''voltage'', [(''mV'', 1), (''V'', 1000)]),
     (''gravity'', [(''m/s^2'', 1.0), (''g'', 9.80665)])]"

text \<open>
  A \<open>UnitsDefinition\<close> is a dictionary from attribute to unit name. The constructor of
  \<open>dict\<close> does not go through \<open>__setitem__\<close>, so a selection may hold any string.
\<close>

type_synonym UnitsDefinition = "string \<rightharpoonup> string"

text \<open>\<open>ALL_UNITS[attribute][self[attribute]]\<close>: each of the three lookups raises
  \<open>KeyError\<close> on a missing key.\<close>

definition lookup_factor :: "UnitsDefinition \<Rightarrow> string \<Rightarrow> error + real" where
  "lookup_factor units attribute =
     (case map_of ALL_UNITS attribute of
        None \<Rightarrow> Inl KeyError
      | Some table \<Rightarrow>
          (case units attribute of
             None \<Rightarrow> Inl KeyError
           | Some unit \<Rightarrow>
               (case map_of table unit of
                  None \<Rightarrow> Inl KeyError
                | Some factor \<Rightarrow> Inr factor)))"

definition convert_to_default_units :: "UnitsDefinition \<Rightarrow> real \<Rightarrow> string \<Rightarrow> error + real" where
  "convert_to_default_units units val attribute =
     (case lookup_factor units attribute of
        Inl e \<Rightarrow> Inl e
      | Inr factor \<Rightarrow> Inr (val * factor))"

definition convert_from_default_units :: "UnitsDefinition \<Rightarrow> real \<Rightarrow> string \<Rightarrow> error + real" where
  "convert_from_default_units units val attribute =
     (case lookup_factor units attribute of
        Inl e \<Rightarrow> Inl e
      | Inr factor \<Rightarrow> (if factor = 0 then Inl ZeroDivisionError else Inr (val / factor)))"

definition DEFAULT_UNITS :: UnitsDefinition where
  "DEFAULT_UNITS = map_of
    [(''force'', ''N''), (''torque'', ''N-m''), (''stiffness'', ''N/rad''),
     (''damping'', ''N/(rad/s)''), (''length'', ''m''), (''angle'', ''rad''),
     (''mass'', ''kg''), (''velocity'', ''rad/s''), (''acceleration'', ''rad/s^2''),
     (''time'', ''s''), (''current'', ''mA''), (''voltage'', ''mV''),
     (''gravity'', ''m/s^2'')]"

text \<open>Python's \<open>int\<close> of a float truncates towards zero.\<close>

definition py_int :: "real \<Rightarrow> int" where
  "py_int x = (if 0 \<le> x then \<lfloor>x\<rfloor> else \<lceil>x\<rceil>)"

section \<open>Gains, the device collaborator and the controller state (lines 185--445)\<close>

record Gains =
  g_kp :: int
  g_ki :: int
  g_kd :: int
  g_K :: int
  g_B :: int
  g_ff :: int

definition DEFAULT_POSITION_GAINS :: Gains where
  "DEFAULT_POSITION_GAINS = \<lparr>g_kp = 200, g_ki = 50, g_kd = 0, g_K = 0, g_B = 0, g_ff = 0\<rparr>"

definition DEFAULT_CURRENT_GAINS :: Gains where
  "DEFAULT_CURRENT_GAINS = \<lparr>g_kp = 40, g_ki = 400, g_kd = 0, g_K = 0, g_B = 0, g_ff = 128\<rparr>"

definition DEFAULT_IMPEDANCE_GAINS :: Gains where
  "DEFAULT_IMPEDANCE_GAINS = \<lparr>g_kp = 40, g_ki = 400, g_kd = 0, g_K = 300, g_B = 1600, g_ff = 128\<rparr>"

text \<open>The controller identifiers of \<open>flexsea.fx_enums\<close>, used only as distinct tags.\<close>

datatype control_mode = FX_POSITION | FX_VOLTAGE | FX_CURRENT | FX_IMPEDANCE

text \<open>
  The \<open>Device\<close> base class is an external collaborator. Its calls are recorded, in
  order, in a log kept in the controller state; device I/O failures are not modelled.
  \<open>SetGains kp ki kd k b ff\<close> is one call of \<open>Device.set_gains\<close>.
\<close>

datatype device_call =
    Open int bool
  | StartStreaming int
  | Close
  | SendMotorCommand control_mode int
  | SetGains int int int int int int

text \<open>The fields of the raw frame \<open>fxd.ActPackState\<close> read by the accessors below.\<close>

record ActPackState =
  mot_volt :: int
  mot_cur :: int
  mot_ang :: int

text \<open>The keys of \<open>DephyActpack._modes\<close> name the four mode objects.\<close>

datatype mode_key = VOLTAGE | POSITION | CURRENT | IMPEDANCE

text \<open>
  \<open>self_mode\<close> is the attribute \<open>_mode\<close>, \<open>has_gains k\<close> the attribute
  \<open>_has_gains\<close> of the mode object \<open>_modes[k]\<close>.
\<close>

record DephyActpack =
  self_debug_level :: int
  self_dephy_log :: bool
  self_frequency :: int
  self_data :: ActPackState
  self_units :: UnitsDefinition
  self_mode :: mode_key
  has_gains :: "mode_key \<Rightarrow> bool"
  device_log :: "device_call list"

text \<open>
  A method is a function from the state to its result and the state it leaves behind;
  a raised exception is \<open>Inl\<close>, and the state reached when it was raised is kept.
\<close>

type_synonym 'a action = "DephyActpack \<Rightarrow> (error + 'a) \<times> DephyActpack"

definition ret :: "'a \<Rightarrow> 'a action" where
  "ret x s = (Inr x, s)"

definition raise :: "error \<Rightarrow> 'a action" where
  "raise e s = (Inl e, s)"

definition and_then :: "'a action \<Rightarrow> ('a \<Rightarrow> 'b action) \<Rightarrow> 'b action" where
  "and_then m f s = (case m s of (Inl e, s') \<Rightarrow> (Inl e, s') | (Inr x, s') \<Rightarrow> f x s')"

definition reading :: "(DephyActpack \<Rightarrow> error + 'a) \<Rightarrow> 'a action" where
  "reading r s = (r s, s)"

definition device_do :: "device_call \<Rightarrow> unit action" where
  "device_do c s = (Inr (), s\<lparr>device_log := device_log s @ [c]\<rparr>)"

definition send_motor_command :: "control_mode \<Rightarrow> int \<Rightarrow> unit action" where
  "send_motor_command ctrl v = device_do (SendMotorCommand ctrl v)"

definition set_gains :: "int \<Rightarrow> int \<Rightarrow> int \<Rightarrow> int \<Rightarrow> int \<Rightarrow> int \<Rightarrow> unit action" where
  "set_gains kp ki kd k b ff = device_do (SetGains kp ki kd k b ff)"

definition set_has_gains :: "mode_key \<Rightarrow> unit action" where
  "set_has_gains k s = (Inr (), s\<lparr>has_gains := (has_gains s)(k := True)\<rparr>)"

definition DephyActpack_init :: "UnitsDefinition option \<Rightarrow> DephyActpack" where
  "DephyActpack_init units =
     \<lparr>self_debug_level = 0, self_dephy_log = False, self_frequency = 500,
      self_data = \<lparr>mot_volt = 0, mot_cur = 0, mot_ang = 0\<rparr>,
      self_units = (case units of None \<Rightarrow> DEFAULT_UNITS | Some u \<Rightarrow> u),
      self_mode = VOLTAGE, has_gains = (\<lambda>k. False), device_log = []\<rparr>"

section \<open>Telemetry accessors (lines 633--680)\<close>

definition q_axis_voltage :: "DephyActpack \<Rightarrow> error + real" where
  "q_axis_voltage s =
     convert_from_default_units (self_units s) (real_of_int (mot_volt (self_data s))) ''voltage''"

definition q_axis_current :: "DephyActpack \<Rightarrow> error + real" where
  "q_axis_current s =
     convert_from_default_units (self_units s) (real_of_int (mot_cur (self_data s))) ''current''"

text \<open>The first definition of the property \<open>motor_torque\<close> (line 647); the class body
  rebinds the name at line 675, so this one is never reachable.\<close>

definition motor_torque_shadowed :: "DephyActpack \<Rightarrow> error + real" where
  "motor_torque_shadowed s =
     convert_from_default_units (self_units s)
       (real_of_int (mot_cur (self_data s)) * NM_PER_MILLIAMP) ''torque''"

definition motor_angle :: "DephyActpack \<Rightarrow> error + real" where
  "motor_angle s =
     convert_from_default_units (self_units s)
       (real_of_int (mot_ang (self_data s)) * RAD_PER_COUNT) ''angle''"

text \<open>The second definition (line 675), the one the class keeps.\<close>

definition motor_torque :: "DephyActpack \<Rightarrow> error + real" where
  "motor_torque s =
     (case q_axis_current s of
        Inl e \<Rightarrow> Inl e
      | Inr i \<Rightarrow> convert_from_default_units (self_units s) (i * NM_PER_AMP) ''torque'')"

section \<open>The mode objects (lines 208--389)\<close>

text \<open>The property \<open>ActpackMode.mode\<close>: the controller identifier of a mode object.\<close>

fun ActpackMode_mode :: "mode_key \<Rightarrow> control_mode" where
  "ActpackMode_mode VOLTAGE = FX_VOLTAGE"
| "ActpackMode_mode POSITION = FX_POSITION"
| "ActpackMode_mode CURRENT = FX_CURRENT"
| "ActpackMode_mode IMPEDANCE = FX_IMPEDANCE"

definition VoltageMode_set_qaxis_voltage :: "int \<Rightarrow> unit action" where
  "VoltageMode_set_qaxis_voltage voltage = send_motor_command (ActpackMode_mode VOLTAGE) voltage"

definition VoltageMode_entry :: "unit action" where
  "VoltageMode_entry = ret ()"

definition VoltageMode_exit :: "unit action" where
  "VoltageMode_exit = VoltageMode_set_qaxis_voltage 0"

definition CurrentMode_set_gains :: "int \<Rightarrow> int \<Rightarrow> int \<Rightarrow> unit action" where
  "CurrentMode_set_gains kp ki ff =
     (if \<not> (0 \<le> kp \<and> kp \<le> 80) then raise AssertionError
      else if \<not> (0 \<le> ki \<and> ki \<le> 800) then raise AssertionError
      else if \<not> (0 \<le> ff \<and> ff \<le> 128) then raise AssertionError
      else and_then (set_gains kp ki 0 0 0 ff) (\<lambda>_. set_has_gains CURRENT))"

definition CurrentMode_set_qaxis_current :: "int \<Rightarrow> unit action" where
  "CurrentMode_set_qaxis_current current = send_motor_command (ActpackMode_mode CURRENT) current"

definition CurrentMode_entry :: "unit action" where
  "CurrentMode_entry s =
     and_then
       (if \<not> has_gains s CURRENT
        then CurrentMode_set_gains (g_kp DEFAULT_CURRENT_GAINS) (g_ki DEFAULT_CURRENT_GAINS)
               (g_ff DEFAULT_CURRENT_GAINS)
        else ret ())
       (\<lambda>_. CurrentMode_set_qaxis_current 0) s"

definition CurrentMode_exit :: "unit action" where
  "CurrentMode_exit = send_motor_command FX_VOLTAGE 0"

definition PositionMode_set_gains :: "int \<Rightarrow> int \<Rightarrow> int \<Rightarrow> unit action" where
  "PositionMode_set_gains kp ki kd =
     (if \<not> (0 \<le> kp \<and> kp \<le> 1000) then raise AssertionError
      else if \<not> (0 \<le> ki \<and> ki \<le> 1000) then raise AssertionError
      else if \<not> (0 \<le> kd \<and> kd \<le> 1000) then raise AssertionError
      else and_then (set_gains kp ki kd 0 0 0) (\<lambda>_. set_has_gains POSITION))"

definition PositionMode_set_motor_angle :: "int \<Rightarrow> unit action" where
  "PositionMode_set_motor_angle counts = send_motor_command (ActpackMode_mode POSITION) counts"

text \<open>The argument of \<open>_set_motor_angle\<close> in both \<open>_entry\<close> methods:
  \<open>int(units.convert_to_default_units(device.motor_angle, "angle") / RAD_PER_COUNT)\<close>.\<close>

definition measured_angle_counts :: "int action" where
  "measured_angle_counts =
     and_then (reading motor_angle) (\<lambda>angle.
     and_then (reading (\<lambda>s. convert_to_default_units (self_units s) angle ''angle'')) (\<lambda>rad.
     ret (py_int (rad / RAD_PER_COUNT))))"

definition PositionMode_entry :: "unit action" where
  "PositionMode_entry s =
     and_then
       (if \<not> has_gains s POSITION
        then PositionMode_set_gains (g_kp DEFAULT_POSITION_GAINS) (g_ki DEFAULT_POSITION_GAINS)
               (g_kd DEFAULT_POSITION_GAINS)
        else ret ())
       (\<lambda>_. and_then measured_angle_counts PositionMode_set_motor_angle) s"

definition PositionMode_exit :: "unit action" where
  "PositionMode_exit = send_motor_command FX_VOLTAGE 0"

definition ImpedanceMode_set_gains :: "int \<Rightarrow> int \<Rightarrow> int \<Rightarrow> int \<Rightarrow> int \<Rightarrow> unit action" where
  "ImpedanceMode_set_gains kp ki K B ff =
     (if \<not> (0 \<le> kp \<and> kp \<le> 80) then raise AssertionError
      else if \<not> (0 \<le> ki \<and> ki \<le> 800) then raise AssertionError
      else if \<not> (0 \<le> ff \<and> ff \<le> 128) then raise AssertionError
      else if \<not> 0 \<le> K then raise AssertionError
      else if \<not> 0 \<le> B then raise AssertionError
      else and_then (set_gains kp ki 0 K B ff) (\<lambda>_. set_has_gains IMPEDANCE))"

definition ImpedanceMode_set_motor_angle :: "int \<Rightarrow> unit action" where
  "ImpedanceMode_set_motor_angle counts = send_motor_command (ActpackMode_mode IMPEDANCE) counts"

definition ImpedanceMode_entry :: "unit action" where
  "ImpedanceMode_entry s =
     and_then
       (if \<not> has_gains s IMPEDANCE
        then ImpedanceMode_set_gains (g_kp DEFAULT_IMPEDANCE_GAINS) (g_ki DEFAULT_IMPEDANCE_GAINS)
               (g_K DEFAULT_IMPEDANCE_GAINS) (g_B DEFAULT_IMPEDANCE_GAINS)
               (g_ff DEFAULT_IMPEDANCE_GAINS)
        else ret ())
       (\<lambda>_. and_then measured_angle_counts ImpedanceMode_set_motor_angle) s"

definition ImpedanceMode_exit :: "unit action" where
  "ImpedanceMode_exit = send_motor_command FX_VOLTAGE 0"

text \<open>\<open>enter\<close> and \<open>exit\<close> call the callbacks each subclass installs in its constructor.\<close>

fun enter :: "mode_key \<Rightarrow> unit action" where
  "enter VOLTAGE = VoltageMode_entry"
| "enter POSITION = PositionMode_entry"
| "enter CURRENT = CurrentMode_entry"
| "enter IMPEDANCE = ImpedanceMode_entry"

fun exit_mode :: "mode_key \<Rightarrow> unit action" where
  "exit_mode VOLTAGE = VoltageMode_exit"
| "exit_mode POSITION = PositionMode_exit"
| "exit_mode CURRENT = CurrentMode_exit"
| "exit_mode IMPEDANCE = ImpedanceMode_exit"

text \<open>\<open>self.transition(to_state)\<close>, with \<open>self\<close> the mode object \<open>from_state\<close>.\<close>

definition transition :: "mode_key \<Rightarrow> mode_key \<Rightarrow> unit action" where
  "transition from_state to_state = and_then (exit_mode from_state) (\<lambda>_. enter to_state)"

section \<open>The controller (lines 447--607)\<close>

definition start :: "unit action" where
  "start s =
     and_then (device_do (Open (self_debug_level s) (self_dephy_log s))) (\<lambda>_.
     and_then (device_do (StartStreaming (self_frequency s))) (\<lambda>_.
     enter (self_mode s))) s"

definition stop :: "unit action" where
  "stop = device_do Close"

text \<open>\<open>update\<close> stores the frame that \<open>read()\<close> returns; the frame is a parameter.\<close>

definition update :: "ActPackState \<Rightarrow> unit action" where
  "update frame s = (Inr (), s\<lparr>self_data := frame\<rparr>)"

text \<open>
  The test every setter starts with: if \<open>_mode\<close> is not the wanted mode object, either
  \<open>self._mode.transition(self._modes[wanted])\<close> or \<open>ValueError\<close>. Nothing assigns
  \<open>_mode\<close>.
\<close>

definition require_mode :: "mode_key \<Rightarrow> bool \<Rightarrow> unit action" where
  "require_mode wanted force s =
     (if self_mode s \<noteq> wanted
      then (if force then transition (self_mode s) wanted s else raise ValueError s)
      else ret () s)"

text \<open>
  \<open>self._mode._set_gains(...)\<close> is looked up on the object \<open>_mode\<close>: \<open>VoltageMode\<close>
  has no such method (\<open>AttributeError\<close>), and a keyword the method found does not
  declare is a \<open>TypeError\<close>; keywords left out take the method's defaults.
\<close>

definition set_position_gains :: "int \<Rightarrow> int \<Rightarrow> int \<Rightarrow> bool \<Rightarrow> unit action" where
  "set_position_gains kp ki kd force =
     and_then (require_mode POSITION force) (\<lambda>_ s.
       (case self_mode s of
          VOLTAGE \<Rightarrow> raise AttributeError s
        | POSITION \<Rightarrow> PositionMode_set_gains kp ki kd s
        | CURRENT \<Rightarrow> raise TypeError s
        | IMPEDANCE \<Rightarrow> raise TypeError s))"

definition set_current_gains :: "int \<Rightarrow> int \<Rightarrow> int \<Rightarrow> bool \<Rightarrow> unit action" where
  "set_current_gains kp ki ff force =
     and_then (require_mode CURRENT force) (\<lambda>_ s.
       (case self_mode s of
          VOLTAGE \<Rightarrow> raise AttributeError s
        | POSITION \<Rightarrow> raise TypeError s
        | CURRENT \<Rightarrow> CurrentMode_set_gains kp ki ff s
        | IMPEDANCE \<Rightarrow>
            ImpedanceMode_set_gains kp ki (g_K DEFAULT_IMPEDANCE_GAINS)
              (g_B DEFAULT_IMPEDANCE_GAINS) ff s))"

definition set_impedance_gains :: "int \<Rightarrow> int \<Rightarrow> int \<Rightarrow> int \<Rightarrow> int \<Rightarrow> bool \<Rightarrow> unit action" where
  "set_impedance_gains kp ki K B ff force =
     and_then (require_mode IMPEDANCE force) (\<lambda>_ s.
       (case self_mode s of
          VOLTAGE \<Rightarrow> raise AttributeError s
        | POSITION \<Rightarrow> raise TypeError s
        | CURRENT \<Rightarrow> raise TypeError s
        | IMPEDANCE \<Rightarrow> ImpedanceMode_set_gains kp ki K B ff s))"

text \<open>
  In \<open>self._mode._set_qaxis_voltage(int(...))\<close> the method is looked up first
  (\<open>AttributeError\<close> if the object \<open>_mode\<close> lacks it), then the argument is
  evaluated (\<open>KeyError\<close> from the units), then the method runs.
\<close>

definition set_q_axis_voltage :: "real \<Rightarrow> bool \<Rightarrow> unit action" where
  "set_q_axis_voltage val force =
     and_then (require_mode VOLTAGE force) (\<lambda>_.
     and_then (reading (\<lambda>s. case self_mode s of
                               VOLTAGE \<Rightarrow> Inr VoltageMode_set_qaxis_voltage
                             | _ \<Rightarrow> Inl AttributeError)) (\<lambda>method.
     and_then (reading (\<lambda>s. convert_to_default_units (self_units s) val ''voltage'')) (\<lambda>mv.
     method (py_int mv))))"

definition set_q_axis_current :: "real \<Rightarrow> bool \<Rightarrow> unit action" where
  "set_q_axis_current val force =
     and_then (require_mode CURRENT force) (\<lambda>_.
     and_then (reading (\<lambda>s. case self_mode s of
                               CURRENT \<Rightarrow> Inr CurrentMode_set_qaxis_current
                             | _ \<Rightarrow> Inl AttributeError)) (\<lambda>method.
     and_then (reading (\<lambda>s. convert_to_default_units (self_units s) val ''current'')) (\<lambda>ma.
     method (py_int ma))))"

definition set_motor_torque :: "real \<Rightarrow> bool \<Rightarrow> unit action" where
  "set_motor_torque torque force =
     and_then (require_mode CURRENT force) (\<lambda>_.
     and_then (reading (\<lambda>s. case self_mode s of
                               CURRENT \<Rightarrow> Inr CurrentMode_set_qaxis_current
                             | _ \<Rightarrow> Inl AttributeError)) (\<lambda>method.
     and_then (reading (\<lambda>s. convert_to_default_units (self_units s) torque ''torque'')) (\<lambda>nm.
     method (py_int (nm / NM_PER_MILLIAMP)))))"

text \<open>\<open>set_motor_angle\<close> takes the angle only; it has no \<open>force\<close> parameter.\<close>

definition set_motor_angle :: "real \<Rightarrow> unit action" where
  "set_motor_angle angle =
     and_then (\<lambda>s. if self_mode s \<notin> set [POSITION, IMPEDANCE] then raise ValueError s
                    else ret () s) (\<lambda>_.
     and_then (reading (\<lambda>s. case self_mode s of
                               POSITION \<Rightarrow> Inr PositionMode_set_motor_angle
                             | IMPEDANCE \<Rightarrow> Inr ImpedanceMode_set_motor_angle
                             | _ \<Rightarrow> Inl AttributeError)) (\<lambda>method.
     and_then (reading (\<lambda>s. convert_to_default_units (self_units s) angle ''angle'')) (\<lambda>rad.
     method (py_int (rad / RAD_PER_COUNT)))))"

text \<open>The public methods that change the controller, and a caller that invokes them one
  after another, going on after an exception.\<close>

datatype operation =
    Start
  | Stop
  | Update ActPackState
  | SetPositionGains int int int bool
  | SetCurrentGains int int int bool
  | SetImpedanceGains int int int int int bool
  | SetQAxisVoltage real bool
  | SetQAxisCurrent real bool
  | SetMotorTorque real bool
  | SetMotorAngle real

fun step :: "operation \<Rightarrow> unit action" where
  "step Start = start"
| "step Stop = stop"
| "step (Update frame) = update frame"
| "step (SetPositionGains kp ki kd force) = set_position_gains kp ki kd force"
| "step (SetCurrentGains kp ki ff force) = set_current_gains kp ki ff force"
| "step (SetImpedanceGains kp ki K B ff force) = set_impedance_gains kp ki K B ff force"
| "step (SetQAxisVoltage v force) = set_q_axis_voltage v force"
| "step (SetQAxisCurrent v force) = set_q_axis_current v force"
| "step (SetMotorTorque v force) = set_motor_torque v force"
| "step (SetMotorAngle v) = set_motor_angle v"

fun run :: "operation list \<Rightarrow> DephyActpack \<Rightarrow> DephyActpack" where
  "run [] s = s"
| "run (op # ops) s = run ops (snd (step op s))"

text \<open>Recognises the calls of \<open>Device.set_gains\<close> in the device log.\<close>

fun is_set_gains :: "device_call \<Rightarrow> bool" where
  "is_set_gains (SetGains kp ki kd k b ff) = True"
| "is_set_gains _ = False"

section \<open>Properties of the unit tables\<close>

lemma ALL_UNITS_entries_nonzero:
  "(c, table) \<in> set ALL_UNITS \<Longrightarrow> (u, f) \<in> set table \<Longrightarrow> f \<noteq> 0"
  unfolding ALL_UNITS_def by auto

lemma registered_factor_nonzero:
  assumes "map_of ALL_UNITS c = Some table" and "map_of table u = Some f"
  shows "f \<noteq> 0"
  using assms ALL_UNITS_entries_nonzero map_of_SomeD by metis

lemma lookup_factor_registered:
  assumes "map_of ALL_UNITS c = Some table" and "units c = Some u"
    and "map_of table u = Some f"
  shows "lookup_factor units c = Inr f"
  using assms by (simp add: lookup_factor_def)

text \<open>
  Claim C4. For every category of \<open>ALL_UNITS\<close>, every unit name registered in that
  category's table and selected for it, and every value \<open>x\<close>: converting \<open>x\<close> to the
  default unit multiplies it by the unit's factor, and converting the result back from
  the default unit with the same selection returns exactly \<open>x\<close> (over exact arithmetic).
\<close>

theorem units_round_trip:
  assumes "map_of ALL_UNITS c = Some table" and "map_of table u = Some f"
    and "units c = Some u"
  shows "convert_to_default_units units x c = Inr (x * f)
       \<and> convert_from_default_units units (x * f) c = Inr x"
proof -
  have nz: "f \<noteq> 0"
    using assms(1,2) by (rule registered_factor_nonzero)
  have uf: "lookup_factor units c = Inr f"
    using assms(1,3,2) by (rule lookup_factor_registered)
  show ?thesis
    using nz uf by (simp add: convert_to_default_units_def convert_from_default_units_def)
qed

theorem units_round_trip_witness:
  "map_of ALL_UNITS ''torque'' = Some [(''N-m'', 1.0), (''lbf-in'', 0.1129848290276167),
        (''lbf-ft'', 1.3558179483314004), (''kgf-cm'', 0.0980665), (''kgf-m'', 0.980665)]
   \<and> map_of [(''N-m'', 1.0), (''lbf-in'', 0.1129848290276167),
        (''lbf-ft'', 1.3558179483314004), (''kgf-cm'', 0.0980665), (''kgf-m'', 0.980665)]
        ''lbf-in'' = Some (0.1129848290276167 :: real)
   \<and> (DEFAULT_UNITS(''torque'' \<mapsto> ''lbf-in'')) ''torque'' = Some ''lbf-in''
   \<and> convert_to_default_units (DEFAULT_UNITS(''torque'' \<mapsto> ''lbf-in'')) 2 ''torque''
       = Inr (2 * 0.1129848290276167)
   \<and> convert_from_default_units (DEFAULT_UNITS(''torque'' \<mapsto> ''lbf-in''))
       (2 * 0.1129848290276167) ''torque'' = Inr 2"
  using units_round_trip [of "''torque''" "[(''N-m'', 1.0), (''lbf-in'', 0.1129848290276167),
        (''lbf-ft'', 1.3558179483314004), (''kgf-cm'', 0.0980665), (''kgf-m'', 0.980665)]"
        "''lbf-in''" "0.1129848290276167" "DEFAULT_UNITS(''torque'' \<mapsto> ''lbf-in'')" 2]
  by (simp add: ALL_UNITS_def)

section \<open>Properties of the mode objects\<close>

lemmas action_defs = ret_def raise_def and_then_def reading_def device_do_def
  send_motor_command_def set_gains_def set_has_gains_def

lemmas mode_defs = VoltageMode_set_qaxis_voltage_def VoltageMode_entry_def VoltageMode_exit_def
  CurrentMode_set_gains_def CurrentMode_set_qaxis_current_def CurrentMode_entry_def
  CurrentMode_exit_def PositionMode_set_gains_def PositionMode_set_motor_angle_def
  PositionMode_entry_def PositionMode_exit_def ImpedanceMode_set_gains_def
  ImpedanceMode_set_motor_angle_def ImpedanceMode_entry_def ImpedanceMode_exit_def
  DEFAULT_POSITION_GAINS_def DEFAULT_CURRENT_GAINS_def DEFAULT_IMPEDANCE_GAINS_def

lemmas units_defs = lookup_factor_def convert_to_default_units_def
  convert_from_default_units_def ALL_UNITS_def DEFAULT_UNITS_def

lemma exit_mode_eq:
  "exit_mode k s = (Inr (), s\<lparr>device_log := device_log s @ [SendMotorCommand FX_VOLTAGE 0]\<rparr>)"
  by (cases k) (simp_all add: mode_defs action_defs)

lemma transition_eq:
  "transition a b s = enter b (s\<lparr>device_log := device_log s @ [SendMotorCommand FX_VOLTAGE 0]\<rparr>)"
  by (simp add: transition_def and_then_def exit_mode_eq)

lemma enter_self_mode: "self_mode (snd (enter b s)) = self_mode s"
  by (cases b)
     (auto simp: mode_defs action_defs measured_angle_counts_def split: sum.splits)

lemma transition_self_mode: "self_mode (snd (transition a b s)) = self_mode s"
  by (simp add: transition_eq enter_self_mode)

text \<open>
  Claim C1. A transition runs the exit of the source and then the entry of the
  destination, but it leaves \<open>_mode\<close> as it was: on a freshly constructed controller
  (active mode Voltage) the transition to Current returns normally, has sent the exit
  and entry commands, and the active mode is still Voltage, not Current.
\<close>

theorem transition_active_mode_unchanged:
  "transition VOLTAGE CURRENT (DephyActpack_init None) =
     (Inr (), (DephyActpack_init None)
        \<lparr>has_gains := (has_gains (DephyActpack_init None))(CURRENT := True),
         device_log := [SendMotorCommand FX_VOLTAGE 0, SetGains 40 400 0 0 0 128,
                        SendMotorCommand FX_CURRENT 0]\<rparr>)
   \<and> self_mode (snd (transition VOLTAGE CURRENT (DephyActpack_init None))) = VOLTAGE"
  by (simp add: transition_def DephyActpack_init_def mode_defs action_defs)

text \<open>
  Claim C2. On a freshly constructed controller (active mode Voltage),
  \<open>set_q_axis_current\<close> without \<open>force\<close> raises \<open>ValueError\<close> and leaves the
  state, and so the device log, untouched. With \<open>force\<close> it runs the transition to
  Current and then raises \<open>AttributeError\<close>: \<open>_mode\<close> is still the Voltage object,
  which has no \<open>_set_qaxis_current\<close>, so the converted current 100 is never sent.
\<close>

theorem set_q_axis_current_forced_fails:
  "set_q_axis_current 100 False (DephyActpack_init None) = (Inl ValueError, DephyActpack_init None)
   \<and> fst (set_q_axis_current 100 True (DephyActpack_init None)) = Inl AttributeError
   \<and> device_log (snd (set_q_axis_current 100 True (DephyActpack_init None))) =
        [SendMotorCommand FX_VOLTAGE 0, SetGains 40 400 0 0 0 128, SendMotorCommand FX_CURRENT 0]
   \<and> self_mode (snd (set_q_axis_current 100 True (DephyActpack_init None))) = VOLTAGE"
  by (simp add: set_q_axis_current_def require_mode_def transition_def DephyActpack_init_def
      mode_defs action_defs)

text \<open>
  Claim C7. With the default units (current in mA) and a raw motor current of 1000 mA,
  the property \<open>motor_torque\<close> that the class keeps returns 113.3 N-m, while the
  conversion of \<open>1000 * NM_PER_MILLIAMP\<close> from the default torque unit, which is also
  what the shadowed first definition computes, is 0.1133 N-m.
\<close>

theorem motor_torque_scaled_by_current_unit:
  "motor_torque ((DephyActpack_init None)\<lparr>self_data := \<lparr>mot_volt = 0, mot_cur = 1000, mot_ang = 0\<rparr>\<rparr>)
     = Inr 113.3
   \<and> convert_from_default_units DEFAULT_UNITS (1000 * NM_PER_MILLIAMP) ''torque'' = Inr 0.1133
   \<and> motor_torque_shadowed
       ((DephyActpack_init None)\<lparr>self_data := \<lparr>mot_volt = 0, mot_cur = 1000, mot_ang = 0\<rparr>\<rparr>)
     = Inr 0.1133"
  by (simp add: motor_torque_def motor_torque_shadowed_def q_axis_current_def
      DephyActpack_init_def units_defs NM_PER_AMP_def NM_PER_MILLIAMP_def)

section \<open>Re-homing at entry\<close>









section \<open>Exit before entry\<close>

lemma measured_angle_counts_state: "snd (measured_angle_counts s) = s"
  by (simp add: measured_angle_counts_def action_defs split: sum.splits)

lemma enter_appends: "\<exists>cmds. device_log (snd (enter k s)) = device_log s @ cmds"
proof (cases k)
  case VOLTAGE
  then show ?thesis by (simp add: mode_defs action_defs)
next
  case CURRENT
  then show ?thesis by (simp add: mode_defs action_defs)
next
  case POSITION
  have "\<exists>cmds. device_log (snd (PositionMode_entry s)) = device_log s @ cmds"
  proof (cases "measured_angle_counts
                  (if has_gains s POSITION then s
                   else s\<lparr>device_log := device_log s @ [SetGains 200 50 0 0 0 0],
                          has_gains := (has_gains s)(POSITION := True)\<rparr>)")
    case (Pair r s')
    with measured_angle_counts_state
      [of "if has_gains s POSITION then s
           else s\<lparr>device_log := device_log s @ [SetGains 200 50 0 0 0 0],
                  has_gains := (has_gains s)(POSITION := True)\<rparr>"]
    show ?thesis
      by (cases r) (auto simp: mode_defs action_defs split: if_splits)
  qed
  with POSITION show ?thesis by simp
next
  case IMPEDANCE
  have "\<exists>cmds. device_log (snd (ImpedanceMode_entry s)) = device_log s @ cmds"
  proof (cases "measured_angle_counts
                  (if has_gains s IMPEDANCE then s
                   else s\<lparr>device_log := device_log s @ [SetGains 40 400 0 300 1600 128],
                          has_gains := (has_gains s)(IMPEDANCE := True)\<rparr>)")
    case (Pair r s')
    with measured_angle_counts_state
      [of "if has_gains s IMPEDANCE then s
           else s\<lparr>device_log := device_log s @ [SetGains 40 400 0 300 1600 128],
                  has_gains := (has_gains s)(IMPEDANCE := True)\<rparr>"]
    show ?thesis
      by (cases r) (auto simp: mode_defs action_defs split: if_splits)
  qed
  with IMPEDANCE show ?thesis by simp
qed

text \<open>
  Claim C6. For a transition out of Current, Position or Impedance: the exit of the
  source returns normally having sent exactly one command, the zero q-axis voltage; the
  transition is the destination's entry run on the state whose device log ends with that
  command; so the log after the transition is the old log, the zero voltage command, and
  then whatever the destination's entry sends.
\<close>

theorem exit_zero_voltage_before_entry:
  assumes "from_state \<in> {CURRENT, POSITION, IMPEDANCE}"
  shows "exit_mode from_state s =
           (Inr (), s\<lparr>device_log := device_log s @ [SendMotorCommand FX_VOLTAGE 0]\<rparr>)
       \<and> transition from_state to_state s =
           enter to_state (s\<lparr>device_log := device_log s @ [SendMotorCommand FX_VOLTAGE 0]\<rparr>)
       \<and> (\<exists>cmds. device_log (snd (transition from_state to_state s)) =
                    device_log s @ [SendMotorCommand FX_VOLTAGE 0] @ cmds
                \<and> device_log (snd (enter to_state (snd (exit_mode from_state s)))) =
                    device_log (snd (exit_mode from_state s)) @ cmds)"
proof -
  let ?mid = "s\<lparr>device_log := device_log s @ [SendMotorCommand FX_VOLTAGE 0]\<rparr>"
  have ex: "exit_mode from_state s = (Inr (), ?mid)"
    by (rule exit_mode_eq)
  have tr: "transition from_state to_state s = enter to_state ?mid"
    by (rule transition_eq)
  from enter_appends [of to_state ?mid] obtain cmds where
    cmds: "device_log (snd (enter to_state ?mid)) = device_log ?mid @ cmds"
    by blast
  have "device_log (snd (transition from_state to_state s)) =
          device_log s @ [SendMotorCommand FX_VOLTAGE 0] @ cmds
        \<and> device_log (snd (enter to_state (snd (exit_mode from_state s)))) =
          device_log (snd (exit_mode from_state s)) @ cmds"
    using cmds by (simp add: tr ex)
  then show ?thesis using ex tr by blast
qed

theorem exit_zero_voltage_before_entry_witness:
  "CURRENT \<in> {CURRENT, POSITION, IMPEDANCE}
   \<and> exit_mode CURRENT (DephyActpack_init None) =
       (Inr (), (DephyActpack_init None)\<lparr>device_log := [SendMotorCommand FX_VOLTAGE 0]\<rparr>)
   \<and> device_log (snd (transition CURRENT POSITION (DephyActpack_init None))) =
       [SendMotorCommand FX_VOLTAGE 0, SetGains 200 50 0 0 0 0, SendMotorCommand FX_POSITION 0]"
proof -
  have h: "CURRENT \<in> {CURRENT, POSITION, IMPEDANCE}" by simp
  have e: "device_log (snd (enter POSITION ((DephyActpack_init None)
             \<lparr>device_log := device_log (DephyActpack_init None) @ [SendMotorCommand FX_VOLTAGE 0]\<rparr>)))
           = [SendMotorCommand FX_VOLTAGE 0, SetGains 200 50 0 0 0 0,
              SendMotorCommand FX_POSITION 0]"
    by (simp add: DephyActpack_init_def mode_defs action_defs measured_angle_counts_def
        motor_angle_def units_defs py_int_def)
  show ?thesis
    using h e exit_zero_voltage_before_entry [OF h, of "DephyActpack_init None" POSITION]
    by (simp add: DephyActpack_init_def)
qed

section \<open>The angle setter\<close>

text \<open>
  Claim C8. \<open>set_motor_angle\<close> has no \<open>force\<close> parameter. When the active mode is
  neither Position nor Impedance it raises \<open>ValueError\<close> and leaves the whole state (the
  active mode and the device log among it) as it was. When the active mode is Position or
  Impedance and the selected angle unit is registered with factor \<open>f\<close>, it returns
  normally and sends one command, to the active mode's controller, whose value is the
  angle times \<open>f\<close> (radians) divided by \<open>RAD_PER_COUNT\<close> and truncated to an integer.
\<close>

theorem set_motor_angle_guarded:
  "(self_mode s \<notin> {POSITION, IMPEDANCE} \<longrightarrow>
      set_motor_angle angle s = (Inl ValueError, s))
   \<and> (self_mode s \<in> {POSITION, IMPEDANCE} \<longrightarrow>
        lookup_factor (self_units s) ''angle'' = Inr f \<longrightarrow>
        set_motor_angle angle s =
          (Inr (), s\<lparr>device_log := device_log s @
             [SendMotorCommand (ActpackMode_mode (self_mode s))
                (py_int (angle * f / RAD_PER_COUNT))]\<rparr>))"
proof -
  have refused: "set_motor_angle angle s = (Inl ValueError, s)"
    if "self_mode s \<notin> {POSITION, IMPEDANCE}"
    using that by (simp add: set_motor_angle_def action_defs)
  have sent: "set_motor_angle angle s =
          (Inr (), s\<lparr>device_log := device_log s @
             [SendMotorCommand (ActpackMode_mode (self_mode s))
                (py_int (angle * f / RAD_PER_COUNT))]\<rparr>)"
    if "self_mode s \<in> {POSITION, IMPEDANCE}"
      and "lookup_factor (self_units s) ''angle'' = Inr f"
    using that
    by (auto simp: set_motor_angle_def action_defs convert_to_default_units_def
        PositionMode_set_motor_angle_def ImpedanceMode_set_motor_angle_def)
  show ?thesis using refused sent by blast
qed

theorem set_motor_angle_guarded_witness:
  "self_mode (DephyActpack_init None) \<notin> {POSITION, IMPEDANCE}
   \<and> set_motor_angle 90 (DephyActpack_init None) = (Inl ValueError, DephyActpack_init None)
   \<and> self_mode ((DephyActpack_init (Some (DEFAULT_UNITS(''angle'' \<mapsto> ''deg''))))
                   \<lparr>self_mode := IMPEDANCE\<rparr>) \<in> {POSITION, IMPEDANCE}
   \<and> lookup_factor
        (self_units ((DephyActpack_init (Some (DEFAULT_UNITS(''angle'' \<mapsto> ''deg''))))
                       \<lparr>self_mode := IMPEDANCE\<rparr>)) ''angle'' = Inr 0.017453292519943295
   \<and> set_motor_angle 90 ((DephyActpack_init (Some (DEFAULT_UNITS(''angle'' \<mapsto> ''deg''))))
                            \<lparr>self_mode := IMPEDANCE\<rparr>) =
       (Inr (), (DephyActpack_init (Some (DEFAULT_UNITS(''angle'' \<mapsto> ''deg''))))
          \<lparr>self_mode := IMPEDANCE,
           device_log := [SendMotorCommand FX_IMPEDANCE
                            (py_int (90 * 0.017453292519943295 / RAD_PER_COUNT))]\<rparr>)
   \<and> py_int (90 * 0.017453292519943295 / RAD_PER_COUNT) = 4096"
proof -
  let ?v = "DephyActpack_init None"
  let ?i = "(DephyActpack_init (Some (DEFAULT_UNITS(''angle'' \<mapsto> ''deg''))))
              \<lparr>self_mode := IMPEDANCE\<rparr>"
  have h1: "self_mode ?v \<notin> {POSITION, IMPEDANCE}"
    by (simp add: DephyActpack_init_def)
  have h2: "self_mode ?i \<in> {POSITION, IMPEDANCE}"
    by simp
  have h3: "lookup_factor (self_units ?i) ''angle'' = Inr 0.017453292519943295"
    by (simp add: DephyActpack_init_def units_defs)
  have c: "py_int (90 * 0.017453292519943295 / RAD_PER_COUNT) = 4096"
    by (simp add: py_int_def RAD_PER_COUNT_def np_pi_def MOTOR_COUNT_PER_REV_def)
  have r1: "set_motor_angle 90 ?v = (Inl ValueError, ?v)"
    using set_motor_angle_guarded [of ?v 90] h1 by blast
  have r2: "set_motor_angle 90 ?i =
       (Inr (), ?i\<lparr>device_log := device_log ?i @
          [SendMotorCommand (ActpackMode_mode (self_mode ?i))
             (py_int (90 * 0.017453292519943295 / RAD_PER_COUNT))]\<rparr>)"
    using set_motor_angle_guarded [of ?i 90 "0.017453292519943295"] h2 h3 by blast
  have r2': "set_motor_angle 90 ?i =
       (Inr (), (DephyActpack_init (Some (DEFAULT_UNITS(''angle'' \<mapsto> ''deg''))))
          \<lparr>self_mode := IMPEDANCE,
           device_log := [SendMotorCommand FX_IMPEDANCE
                            (py_int (90 * 0.017453292519943295 / RAD_PER_COUNT))]\<rparr>)"
    unfolding r2 by (simp add: DephyActpack_init_def)
  show ?thesis using h1 h2 h3 c r1 r2' by blast
qed

section \<open>The flag \<open>_has_gains\<close> is never cleared\<close>

lemma and_then_keeps:
  assumes "\<And>s. P s \<Longrightarrow> P (snd (m s))" and "\<And>x s. P s \<Longrightarrow> P (snd (f x s))" and "P s"
  shows "P (snd (and_then m f s))"
proof (cases "m s")
  case (Pair r s')
  have "P s'" using assms(1) [OF assms(3)] Pair by simp
  then show ?thesis
    using Pair assms(2) by (cases r) (simp_all add: and_then_def)
qed

lemma set_gains_routines_keep:
  assumes "has_gains s k"
  shows "has_gains (snd (CurrentMode_set_gains kp ki ff s)) k"
    and "has_gains (snd (PositionMode_set_gains kp ki kd s)) k"
    and "has_gains (snd (ImpedanceMode_set_gains kp ki K B ff s)) k"
  using assms by (simp_all add: mode_defs action_defs)

lemma method_keeps:
  assumes "has_gains s k"
  shows "has_gains (snd (VoltageMode_set_qaxis_voltage v s)) k"
    and "has_gains (snd (CurrentMode_set_qaxis_current v s)) k"
    and "has_gains (snd (PositionMode_set_motor_angle v s)) k"
    and "has_gains (snd (ImpedanceMode_set_motor_angle v s)) k"
  using assms by (simp_all add: mode_defs action_defs)

lemma enter_keeps:
  assumes "has_gains s k"
  shows "has_gains (snd (enter b s)) k"
proof (cases b)
  case VOLTAGE
  then show ?thesis using assms by (simp add: mode_defs action_defs)
next
  case POSITION
  have "has_gains (snd (PositionMode_entry s)) k"
    unfolding PositionMode_entry_def
    by (rule and_then_keeps [where P = "\<lambda>s. has_gains s k"])
       (auto simp: assms set_gains_routines_keep ret_def measured_angle_counts_state
             intro!: and_then_keeps [where P = "\<lambda>s. has_gains s k"] method_keeps)
  then show ?thesis using POSITION by simp
next
  case CURRENT
  have "has_gains (snd (CurrentMode_entry s)) k"
    unfolding CurrentMode_entry_def
    by (rule and_then_keeps [where P = "\<lambda>s. has_gains s k"])
       (auto simp: assms set_gains_routines_keep ret_def method_keeps)
  then show ?thesis using CURRENT by simp
next
  case IMPEDANCE
  have "has_gains (snd (ImpedanceMode_entry s)) k"
    unfolding ImpedanceMode_entry_def
    by (rule and_then_keeps [where P = "\<lambda>s. has_gains s k"])
       (auto simp: assms set_gains_routines_keep ret_def measured_angle_counts_state
             intro!: and_then_keeps [where P = "\<lambda>s. has_gains s k"] method_keeps)
  then show ?thesis using IMPEDANCE by simp
qed

lemma transition_keeps:
  "has_gains s k \<Longrightarrow> has_gains (snd (transition a b s)) k"
  by (simp add: transition_eq enter_keeps)

lemma require_mode_keeps:
  "has_gains s k \<Longrightarrow> has_gains (snd (require_mode wanted force s)) k"
  by (simp add: require_mode_def transition_keeps ret_def raise_def)

lemma step_keeps:
  assumes "has_gains s k"
  shows "has_gains (snd (step op s)) k"
proof (cases op)
  case Start
  then show ?thesis using assms
    by (simp add: start_def and_then_def device_do_def enter_keeps)
next
  case Stop
  then show ?thesis using assms by (simp add: stop_def device_do_def)
next
  case (Update frame)
  then show ?thesis using assms by (simp add: update_def)
next
  case (SetPositionGains kp ki kd force)
  have "has_gains (snd (set_position_gains kp ki kd force s)) k"
    unfolding set_position_gains_def
    by (rule and_then_keeps [where P = "\<lambda>s. has_gains s k"])
       (auto simp: assms require_mode_keeps set_gains_routines_keep raise_def
             split: mode_key.splits)
  then show ?thesis using SetPositionGains by simp
next
  case (SetCurrentGains kp ki ff force)
  have "has_gains (snd (set_current_gains kp ki ff force s)) k"
    unfolding set_current_gains_def
    by (rule and_then_keeps [where P = "\<lambda>s. has_gains s k"])
       (auto simp: assms require_mode_keeps set_gains_routines_keep raise_def
             split: mode_key.splits)
  then show ?thesis using SetCurrentGains by simp
next
  case (SetImpedanceGains kp ki K B ff force)
  have "has_gains (snd (set_impedance_gains kp ki K B ff force s)) k"
    unfolding set_impedance_gains_def
    by (rule and_then_keeps [where P = "\<lambda>s. has_gains s k"])
       (auto simp: assms require_mode_keeps set_gains_routines_keep raise_def
             split: mode_key.splits)
  then show ?thesis using SetImpedanceGains by simp
next
  case (SetQAxisVoltage v force)
  have "has_gains (snd (set_q_axis_voltage v force s)) k"
    using require_mode_keeps [OF assms, of VOLTAGE force]
    by (auto simp: set_q_axis_voltage_def and_then_def reading_def method_keeps
             split: prod.splits sum.splits mode_key.splits)
  then show ?thesis using SetQAxisVoltage by simp
next
  case (SetQAxisCurrent v force)
  have "has_gains (snd (set_q_axis_current v force s)) k"
    using require_mode_keeps [OF assms, of CURRENT force]
    by (auto simp: set_q_axis_current_def and_then_def reading_def method_keeps
             split: prod.splits sum.splits mode_key.splits)
  then show ?thesis using SetQAxisCurrent by simp
next
  case (SetMotorTorque v force)
  have "has_gains (snd (set_motor_torque v force s)) k"
    using require_mode_keeps [OF assms, of CURRENT force]
    by (auto simp: set_motor_torque_def and_then_def reading_def method_keeps
             split: prod.splits sum.splits mode_key.splits)
  then show ?thesis using SetMotorTorque by simp
next
  case (SetMotorAngle v)
  have "has_gains (snd (set_motor_angle v s)) k"
    using assms
    by (auto simp: set_motor_angle_def and_then_def reading_def ret_def raise_def method_keeps
             split: prod.splits sum.splits mode_key.splits)
  then show ?thesis using SetMotorAngle by simp
qed

lemma run_keeps: "has_gains s k \<Longrightarrow> has_gains (run ops s) k"
  by (induction ops arbitrary: s) (simp_all add: step_keeps)

lemma enter_no_gains_call:
  assumes "has_gains s k"
  shows "filter is_set_gains (device_log (snd (enter k s))) = filter is_set_gains (device_log s)"
  using assms
  by (cases k)
     (auto simp: mode_defs action_defs measured_angle_counts_def split: sum.splits)

text \<open>
  Claim C9. Once the flag \<open>_has_gains\<close> of a mode object is true it stays true: after
  any single public method of the controller, after any sequence of them (going on after
  exceptions), after any entry, exit or transition of any mode, and after any of the
  three gain routines. Entering a mode whose flag is already true leaves the flag true
  and adds no call of \<open>set_gains\<close> to the device log: the default gains are not sent
  again.
\<close>

theorem has_gains_never_cleared:
  assumes "has_gains s k"
  shows "has_gains (snd (step op s)) k
       \<and> has_gains (run ops s) k
       \<and> has_gains (snd (enter b s)) k
       \<and> has_gains (snd (exit_mode a s)) k
       \<and> has_gains (snd (transition a b s)) k
       \<and> has_gains (snd (CurrentMode_set_gains kp ki ff s)) k
       \<and> has_gains (snd (PositionMode_set_gains kp ki kd s)) k
       \<and> has_gains (snd (ImpedanceMode_set_gains kp ki K B ff s)) k
       \<and> filter is_set_gains (device_log (snd (enter k s))) =
           filter is_set_gains (device_log s)"
proof -
  have "has_gains (snd (exit_mode a s)) k"
    using assms by (simp add: exit_mode_eq)
  then show ?thesis
    using assms
    by (simp add: step_keeps run_keeps enter_keeps transition_keeps
        set_gains_routines_keep enter_no_gains_call)
qed

theorem has_gains_never_cleared_witness:
  "has_gains (snd (enter CURRENT (DephyActpack_init None))) CURRENT
   \<and> has_gains (run [SetQAxisVoltage 5 True, SetPositionGains 1 1 1 True, Stop, Start]
        (snd (enter CURRENT (DephyActpack_init None)))) CURRENT
   \<and> device_log (snd (enter CURRENT (snd (enter CURRENT (DephyActpack_init None))))) =
       [SetGains 40 400 0 0 0 128, SendMotorCommand FX_CURRENT 0, SendMotorCommand FX_CURRENT 0]
   \<and> filter is_set_gains
        (device_log (snd (enter CURRENT (snd (enter CURRENT (DephyActpack_init None)))))) =
       filter is_set_gains (device_log (snd (enter CURRENT (DephyActpack_init None))))"
proof -
  let ?s = "snd (enter CURRENT (DephyActpack_init None))"
  have h: "has_gains ?s CURRENT"
    by (simp add: DephyActpack_init_def mode_defs action_defs)
  have l: "device_log (snd (enter CURRENT ?s)) =
       [SetGains 40 400 0 0 0 128, SendMotorCommand FX_CURRENT 0, SendMotorCommand FX_CURRENT 0]"
    by (simp add: DephyActpack_init_def mode_defs action_defs)
  show ?thesis
    using h l
      has_gains_never_cleared [OF h,
        of Start "[SetQAxisVoltage 5 True, SetPositionGains 1 1 1 True, Stop, Start]"
           CURRENT CURRENT 0 0 0 0 0 0]
    by blast
qed

section \<open>Default gains\<close>

lemma measured_angle_counts_error: "fst (measured_angle_counts s) \<noteq> Inl AssertionError"
  by (auto simp: measured_angle_counts_def action_defs motor_angle_def
      convert_to_default_units_def convert_from_default_units_def lookup_factor_def
      split: sum.splits option.splits if_splits)

lemma entry_after_gains:
  assumes "has_gains s' = (has_gains s)(k := True)"
    and "device_log s' = device_log s @ [g]"
    and "\<And>v t. device_log (snd (set_angle v t)) = device_log t @ [SendMotorCommand c v]"
    and "\<And>v t. fst (set_angle v t) = Inr ()"
    and "\<And>v t. has_gains (snd (set_angle v t)) = has_gains t"
  shows "fst (and_then measured_angle_counts set_angle s') \<noteq> Inl AssertionError
       \<and> (\<exists>cmds. device_log (snd (and_then measured_angle_counts set_angle s'))
                    = device_log s @ g # cmds)
       \<and> has_gains (snd (and_then measured_angle_counts set_angle s')) k"
proof (cases "measured_angle_counts s'")
  case (Pair r t)
  have t: "t = s'"
    using measured_angle_counts_state [of s'] Pair by simp
  show ?thesis
  proof (cases r)
    case (Inl e)
    have "e \<noteq> AssertionError"
      using measured_angle_counts_error [of s'] Pair Inl by simp
    then show ?thesis
      using Pair Inl t assms(1,2) by (simp add: and_then_def)
  next
    case (Inr v)
    then show ?thesis
      using Pair t assms by (simp add: and_then_def)
  qed
qed

text \<open>
  Claim C10. Each default gain set lies within the bounds its own mode's gain routine
  asserts, so the routine called with the defaults returns normally after one
  \<open>set_gains\<close> call with the default values and sets the flag. Hence, when a mode is
  entered with the flag unset, the entry never raises \<open>AssertionError\<close>, the first
  thing it adds to the device log is the \<open>set_gains\<close> call with that mode's defaults,
  and the flag is set afterwards. (The entry of Current always returns normally; the
  entries of Position and Impedance can still raise \<open>KeyError\<close> after the gain write,
  when the angle unit is unknown.)
\<close>

theorem default_gains_within_bounds:
  "CurrentMode_set_gains (g_kp DEFAULT_CURRENT_GAINS) (g_ki DEFAULT_CURRENT_GAINS)
       (g_ff DEFAULT_CURRENT_GAINS) s =
     (Inr (), s\<lparr>device_log := device_log s @ [SetGains 40 400 0 0 0 128],
                 has_gains := (has_gains s)(CURRENT := True)\<rparr>)
   \<and> PositionMode_set_gains (g_kp DEFAULT_POSITION_GAINS) (g_ki DEFAULT_POSITION_GAINS)
       (g_kd DEFAULT_POSITION_GAINS) s =
     (Inr (), s\<lparr>device_log := device_log s @ [SetGains 200 50 0 0 0 0],
                 has_gains := (has_gains s)(POSITION := True)\<rparr>)
   \<and> ImpedanceMode_set_gains (g_kp DEFAULT_IMPEDANCE_GAINS) (g_ki DEFAULT_IMPEDANCE_GAINS)
       (g_K DEFAULT_IMPEDANCE_GAINS) (g_B DEFAULT_IMPEDANCE_GAINS)
       (g_ff DEFAULT_IMPEDANCE_GAINS) s =
     (Inr (), s\<lparr>device_log := device_log s @ [SetGains 40 400 0 300 1600 128],
                 has_gains := (has_gains s)(IMPEDANCE := True)\<rparr>)
   \<and> (\<not> has_gains s CURRENT \<longrightarrow>
        enter CURRENT s =
          (Inr (), s\<lparr>device_log := device_log s @
                        [SetGains 40 400 0 0 0 128, SendMotorCommand FX_CURRENT 0],
                      has_gains := (has_gains s)(CURRENT := True)\<rparr>))
   \<and> (\<not> has_gains s POSITION \<longrightarrow>
        fst (enter POSITION s) \<noteq> Inl AssertionError
        \<and> (\<exists>cmds. device_log (snd (enter POSITION s)) =
                     device_log s @ SetGains 200 50 0 0 0 0 # cmds)
        \<and> has_gains (snd (enter POSITION s)) POSITION)
   \<and> (\<not> has_gains s IMPEDANCE \<longrightarrow>
        fst (enter IMPEDANCE s) \<noteq> Inl AssertionError
        \<and> (\<exists>cmds. device_log (snd (enter IMPEDANCE s)) =
                     device_log s @ SetGains 40 400 0 300 1600 128 # cmds)
        \<and> has_gains (snd (enter IMPEDANCE s)) IMPEDANCE)"
proof -
  have c: "CurrentMode_set_gains (g_kp DEFAULT_CURRENT_GAINS) (g_ki DEFAULT_CURRENT_GAINS)
       (g_ff DEFAULT_CURRENT_GAINS) s =
     (Inr (), s\<lparr>device_log := device_log s @ [SetGains 40 400 0 0 0 128],
                 has_gains := (has_gains s)(CURRENT := True)\<rparr>)"
    by (simp add: CurrentMode_set_gains_def DEFAULT_CURRENT_GAINS_def action_defs)
  have p: "PositionMode_set_gains (g_kp DEFAULT_POSITION_GAINS) (g_ki DEFAULT_POSITION_GAINS)
       (g_kd DEFAULT_POSITION_GAINS) s =
     (Inr (), s\<lparr>device_log := device_log s @ [SetGains 200 50 0 0 0 0],
                 has_gains := (has_gains s)(POSITION := True)\<rparr>)"
    by (simp add: PositionMode_set_gains_def DEFAULT_POSITION_GAINS_def action_defs)
  have i: "ImpedanceMode_set_gains (g_kp DEFAULT_IMPEDANCE_GAINS) (g_ki DEFAULT_IMPEDANCE_GAINS)
       (g_K DEFAULT_IMPEDANCE_GAINS) (g_B DEFAULT_IMPEDANCE_GAINS)
       (g_ff DEFAULT_IMPEDANCE_GAINS) s =
     (Inr (), s\<lparr>device_log := device_log s @ [SetGains 40 400 0 300 1600 128],
                 has_gains := (has_gains s)(IMPEDANCE := True)\<rparr>)"
    by (simp add: ImpedanceMode_set_gains_def DEFAULT_IMPEDANCE_GAINS_def action_defs)
  have ec: "enter CURRENT s =
          (Inr (), s\<lparr>device_log := device_log s @
                        [SetGains 40 400 0 0 0 128, SendMotorCommand FX_CURRENT 0],
                      has_gains := (has_gains s)(CURRENT := True)\<rparr>)"
    if "\<not> has_gains s CURRENT"
    using that
    by (simp add: CurrentMode_entry_def c and_then_def CurrentMode_set_qaxis_current_def
        send_motor_command_def device_do_def)
  have ep: "fst (enter POSITION s) \<noteq> Inl AssertionError
        \<and> (\<exists>cmds. device_log (snd (enter POSITION s)) =
                     device_log s @ SetGains 200 50 0 0 0 0 # cmds)
        \<and> has_gains (snd (enter POSITION s)) POSITION"
    if "\<not> has_gains s POSITION"
  proof -
    let ?s' = "s\<lparr>device_log := device_log s @ [SetGains 200 50 0 0 0 0],
                  has_gains := (has_gains s)(POSITION := True)\<rparr>"
    have "enter POSITION s = and_then measured_angle_counts PositionMode_set_motor_angle ?s'"
      using that by (simp add: PositionMode_entry_def p and_then_def [of "PositionMode_set_gains _ _ _"])
    moreover have "fst (and_then measured_angle_counts PositionMode_set_motor_angle ?s')
          \<noteq> Inl AssertionError
       \<and> (\<exists>cmds. device_log (snd (and_then measured_angle_counts PositionMode_set_motor_angle ?s'))
                    = device_log s @ SetGains 200 50 0 0 0 0 # cmds)
       \<and> has_gains (snd (and_then measured_angle_counts PositionMode_set_motor_angle ?s')) POSITION"
      by (rule entry_after_gains [where c = FX_POSITION])
         (simp_all add: PositionMode_set_motor_angle_def send_motor_command_def device_do_def)
    ultimately show ?thesis by simp
  qed
  have ei: "fst (enter IMPEDANCE s) \<noteq> Inl AssertionError
        \<and> (\<exists>cmds. device_log (snd (enter IMPEDANCE s)) =
                     device_log s @ SetGains 40 400 0 300 1600 128 # cmds)
        \<and> has_gains (snd (enter IMPEDANCE s)) IMPEDANCE"
    if "\<not> has_gains s IMPEDANCE"
  proof -
    let ?s' = "s\<lparr>device_log := device_log s @ [SetGains 40 400 0 300 1600 128],
                  has_gains := (has_gains s)(IMPEDANCE := True)\<rparr>"
    have "enter IMPEDANCE s = and_then measured_angle_counts ImpedanceMode_set_motor_angle ?s'"
      using that
      by (simp add: ImpedanceMode_entry_def i and_then_def [of "ImpedanceMode_set_gains _ _ _ _ _"])
    moreover have "fst (and_then measured_angle_counts ImpedanceMode_set_motor_angle ?s')
          \<noteq> Inl AssertionError
       \<and> (\<exists>cmds. device_log (snd (and_then measured_angle_counts ImpedanceMode_set_motor_angle ?s'))
                    = device_log s @ SetGains 40 400 0 300 1600 128 # cmds)
       \<and> has_gains (snd (and_then measured_angle_counts ImpedanceMode_set_motor_angle ?s')) IMPEDANCE"
      by (rule entry_after_gains [where c = FX_IMPEDANCE])
         (simp_all add: ImpedanceMode_set_motor_angle_def send_motor_command_def device_do_def)
    ultimately show ?thesis by simp
  qed
  show ?thesis
    using c p i ec ep ei by blast
qed

theorem default_gains_within_bounds_witness:
  "\<not> has_gains (DephyActpack_init None) CURRENT
   \<and> \<not> has_gains (DephyActpack_init None) POSITION
   \<and> \<not> has_gains (DephyActpack_init None) IMPEDANCE
   \<and> enter CURRENT (DephyActpack_init None) =
       (Inr (), (DephyActpack_init None)
          \<lparr>device_log := device_log (DephyActpack_init None) @
                          [SetGains 40 400 0 0 0 128, SendMotorCommand FX_CURRENT 0],
           has_gains := (has_gains (DephyActpack_init None))(CURRENT := True)\<rparr>)
   \<and> fst (enter POSITION (DephyActpack_init None)) \<noteq> Inl AssertionError
   \<and> has_gains (snd (enter POSITION (DephyActpack_init None))) POSITION
   \<and> fst (enter IMPEDANCE (DephyActpack_init None)) \<noteq> Inl AssertionError
   \<and> has_gains (snd (enter IMPEDANCE (DephyActpack_init None))) IMPEDANCE"
proof -
  have h: "\<not> has_gains (DephyActpack_init None) CURRENT"
    "\<not> has_gains (DephyActpack_init None) POSITION"
    "\<not> has_gains (DephyActpack_init None) IMPEDANCE"
    by (simp_all add: DephyActpack_init_def)
  show ?thesis
    using h default_gains_within_bounds [of "DephyActpack_init None"] by blast
qed

section \<open>Gain setting\<close>

lemma CurrentMode_set_gains_eq:
  "CurrentMode_set_gains kp ki ff s =
     (if 0 \<le> kp \<and> kp \<le> 80 \<and> 0 \<le> ki \<and> ki \<le> 800 \<and> 0 \<le> ff \<and> ff \<le> 128
      then (Inr (), s\<lparr>device_log := device_log s @ [SetGains kp ki 0 0 0 ff],
                        has_gains := (has_gains s)(CURRENT := True)\<rparr>)
      else (Inl AssertionError, s))"
  by (simp add: CurrentMode_set_gains_def action_defs)

lemma PositionMode_set_gains_eq:
  "PositionMode_set_gains kp ki kd s =
     (if 0 \<le> kp \<and> kp \<le> 1000 \<and> 0 \<le> ki \<and> ki \<le> 1000 \<and> 0 \<le> kd \<and> kd \<le> 1000
      then (Inr (), s\<lparr>device_log := device_log s @ [SetGains kp ki kd 0 0 0],
                        has_gains := (has_gains s)(POSITION := True)\<rparr>)
      else (Inl AssertionError, s))"
  by (simp add: PositionMode_set_gains_def action_defs)

lemma ImpedanceMode_set_gains_eq:
  "ImpedanceMode_set_gains kp ki K B ff s =
     (if 0 \<le> kp \<and> kp \<le> 80 \<and> 0 \<le> ki \<and> ki \<le> 800 \<and> 0 \<le> ff \<and> ff \<le> 128
         \<and> 0 \<le> K \<and> 0 \<le> B
      then (Inr (), s\<lparr>device_log := device_log s @ [SetGains kp ki 0 K B ff],
                        has_gains := (has_gains s)(IMPEDANCE := True)\<rparr>)
      else (Inl AssertionError, s))"
  by (simp add: ImpedanceMode_set_gains_def action_defs)

text \<open>
  Claim C3, as stated, fails on the guard of the setters: on a freshly constructed
  controller (active mode Voltage), \<open>set_current_gains(40, 400, 128, force=False)\<close> has
  every coefficient within the Current bounds, yet it raises \<open>ValueError\<close>, sends
  nothing to the device and leaves the flag of the Current mode false.
\<close>

theorem set_current_gains_unforced_counterexample:
  "(0::int) \<le> 40 \<and> (40::int) \<le> 80 \<and> (0::int) \<le> 400 \<and> (400::int) \<le> 800
   \<and> (0::int) \<le> 128 \<and> (128::int) \<le> 128
   \<and> set_current_gains 40 400 128 False (DephyActpack_init None)
        = (Inl ValueError, DephyActpack_init None)
   \<and> device_log (snd (set_current_gains 40 400 128 False (DephyActpack_init None))) = []
   \<and> \<not> has_gains (snd (set_current_gains 40 400 128 False (DephyActpack_init None))) CURRENT"
  by (simp add: set_current_gains_def require_mode_def DephyActpack_init_def action_defs)

text \<open>
  Claim C3, amended. Each mode's gain routine checks the bounds before it touches the
  device: if a coefficient is out of bounds it raises \<open>AssertionError\<close> with the state
  unchanged, otherwise it makes exactly one \<open>set_gains\<close> call carrying the six
  coefficients (the ones the mode does not take are zero) and sets that mode's flag.
  A setter of the controller called while its mode is the active one does exactly what
  that routine does, whatever \<open>force\<close> is. A setter called without \<open>force\<close> while
  another mode is active raises \<open>ValueError\<close> with the state unchanged.
\<close>

theorem gains_checked_before_device_write:
  "CurrentMode_set_gains kp ki ff s =
     (if 0 \<le> kp \<and> kp \<le> 80 \<and> 0 \<le> ki \<and> ki \<le> 800 \<and> 0 \<le> ff \<and> ff \<le> 128
      then (Inr (), s\<lparr>device_log := device_log s @ [SetGains kp ki 0 0 0 ff],
                        has_gains := (has_gains s)(CURRENT := True)\<rparr>)
      else (Inl AssertionError, s))
   \<and> PositionMode_set_gains kp ki kd s =
     (if 0 \<le> kp \<and> kp \<le> 1000 \<and> 0 \<le> ki \<and> ki \<le> 1000 \<and> 0 \<le> kd \<and> kd \<le> 1000
      then (Inr (), s\<lparr>device_log := device_log s @ [SetGains kp ki kd 0 0 0],
                        has_gains := (has_gains s)(POSITION := True)\<rparr>)
      else (Inl AssertionError, s))
   \<and> ImpedanceMode_set_gains kp ki K B ff s =
     (if 0 \<le> kp \<and> kp \<le> 80 \<and> 0 \<le> ki \<and> ki \<le> 800 \<and> 0 \<le> ff \<and> ff \<le> 128
         \<and> 0 \<le> K \<and> 0 \<le> B
      then (Inr (), s\<lparr>device_log := device_log s @ [SetGains kp ki 0 K B ff],
                        has_gains := (has_gains s)(IMPEDANCE := True)\<rparr>)
      else (Inl AssertionError, s))
   \<and> (self_mode s = CURRENT \<longrightarrow>
        set_current_gains kp ki ff force s = CurrentMode_set_gains kp ki ff s)
   \<and> (self_mode s = POSITION \<longrightarrow>
        set_position_gains kp ki kd force s = PositionMode_set_gains kp ki kd s)
   \<and> (self_mode s = IMPEDANCE \<longrightarrow>
        set_impedance_gains kp ki K B ff force s = ImpedanceMode_set_gains kp ki K B ff s)
   \<and> (self_mode s \<noteq> CURRENT \<longrightarrow>
        set_current_gains kp ki ff False s = (Inl ValueError, s))
   \<and> (self_mode s \<noteq> POSITION \<longrightarrow>
        set_position_gains kp ki kd False s = (Inl ValueError, s))
   \<and> (self_mode s \<noteq> IMPEDANCE \<longrightarrow>
        set_impedance_gains kp ki K B ff False s = (Inl ValueError, s))"
proof -
  have c: "self_mode s = CURRENT \<longrightarrow>
        set_current_gains kp ki ff force s = CurrentMode_set_gains kp ki ff s"
    by (simp add: set_current_gains_def require_mode_def ret_def and_then_def)
  have p: "self_mode s = POSITION \<longrightarrow>
        set_position_gains kp ki kd force s = PositionMode_set_gains kp ki kd s"
    by (simp add: set_position_gains_def require_mode_def ret_def and_then_def)
  have i: "self_mode s = IMPEDANCE \<longrightarrow>
        set_impedance_gains kp ki K B ff force s = ImpedanceMode_set_gains kp ki K B ff s"
    by (simp add: set_impedance_gains_def require_mode_def ret_def and_then_def)
  have nc: "self_mode s \<noteq> CURRENT \<longrightarrow>
        set_current_gains kp ki ff False s = (Inl ValueError, s)"
    by (simp add: set_current_gains_def require_mode_def raise_def and_then_def)
  have np: "self_mode s \<noteq> POSITION \<longrightarrow>
        set_position_gains kp ki kd False s = (Inl ValueError, s)"
    by (simp add: set_position_gains_def require_mode_def raise_def and_then_def)
  have ni: "self_mode s \<noteq> IMPEDANCE \<longrightarrow>
        set_impedance_gains kp ki K B ff False s = (Inl ValueError, s)"
    by (simp add: set_impedance_gains_def require_mode_def raise_def and_then_def)
  show ?thesis
    using c p i nc np ni
    by (simp only: CurrentMode_set_gains_eq PositionMode_set_gains_eq
        ImpedanceMode_set_gains_eq simp_thms)
qed

theorem gains_checked_before_device_write_witness:
  "self_mode ((DephyActpack_init None)\<lparr>self_mode := CURRENT\<rparr>) = CURRENT
   \<and> set_current_gains 80 800 128 True ((DephyActpack_init None)\<lparr>self_mode := CURRENT\<rparr>) =
       (Inr (), (DephyActpack_init None)
          \<lparr>self_mode := CURRENT, device_log := [SetGains 80 800 0 0 0 128],
           has_gains := (has_gains (DephyActpack_init None))(CURRENT := True)\<rparr>)
   \<and> set_current_gains 81 800 128 True ((DephyActpack_init None)\<lparr>self_mode := CURRENT\<rparr>) =
       (Inl AssertionError, (DephyActpack_init None)\<lparr>self_mode := CURRENT\<rparr>)
   \<and> set_position_gains 200 50 0 False ((DephyActpack_init None)\<lparr>self_mode := CURRENT\<rparr>) =
       (Inl ValueError, (DephyActpack_init None)\<lparr>self_mode := CURRENT\<rparr>)
   \<and> set_impedance_gains 40 400 300 1600 128 False
        ((DephyActpack_init None)\<lparr>self_mode := CURRENT\<rparr>) =
       (Inl ValueError, (DephyActpack_init None)\<lparr>self_mode := CURRENT\<rparr>)
   \<and> self_mode ((DephyActpack_init None)\<lparr>self_mode := POSITION\<rparr>) = POSITION
   \<and> set_position_gains 1000 0 1001 True ((DephyActpack_init None)\<lparr>self_mode := POSITION\<rparr>) =
       (Inl AssertionError, (DephyActpack_init None)\<lparr>self_mode := POSITION\<rparr>)
   \<and> set_current_gains 40 400 128 False ((DephyActpack_init None)\<lparr>self_mode := POSITION\<rparr>) =
       (Inl ValueError, (DephyActpack_init None)\<lparr>self_mode := POSITION\<rparr>)
   \<and> self_mode ((DephyActpack_init None)\<lparr>self_mode := IMPEDANCE\<rparr>) = IMPEDANCE
   \<and> set_impedance_gains 40 400 300 1600 128 True
        ((DephyActpack_init None)\<lparr>self_mode := IMPEDANCE\<rparr>) =
       (Inr (), (DephyActpack_init None)
          \<lparr>self_mode := IMPEDANCE, device_log := [SetGains 40 400 0 300 1600 128],
           has_gains := (has_gains (DephyActpack_init None))(IMPEDANCE := True)\<rparr>)"
proof -
  let ?c = "(DephyActpack_init None)\<lparr>self_mode := CURRENT\<rparr>"
  let ?p = "(DephyActpack_init None)\<lparr>self_mode := POSITION\<rparr>"
  let ?i = "(DephyActpack_init None)\<lparr>self_mode := IMPEDANCE\<rparr>"
  have l: "device_log (DephyActpack_init None) = []"
    by (simp add: DephyActpack_init_def)
  have hc: "self_mode ?c = CURRENT" "self_mode ?c \<noteq> POSITION" "self_mode ?c \<noteq> IMPEDANCE"
    by simp_all
  have hp: "self_mode ?p = POSITION" "self_mode ?p \<noteq> CURRENT"
    by simp_all
  have hi: "self_mode ?i = IMPEDANCE"
    by simp
  have c1: "set_current_gains 80 800 128 True ?c =
       (Inr (), (DephyActpack_init None)
          \<lparr>self_mode := CURRENT, device_log := [SetGains 80 800 0 0 0 128],
           has_gains := (has_gains (DephyActpack_init None))(CURRENT := True)\<rparr>)"
    using gains_checked_before_device_write
      [where s = ?c and kp = 80 and ki = 800 and ff = 128 and force = True] hc l
    by simp
  have c2: "set_current_gains 81 800 128 True ?c = (Inl AssertionError, ?c)"
    using gains_checked_before_device_write
      [where s = ?c and kp = 81 and ki = 800 and ff = 128 and force = True] hc
    by simp
  have c3: "set_position_gains 200 50 0 False ?c = (Inl ValueError, ?c)"
    using gains_checked_before_device_write
      [where s = ?c and kp = 200 and ki = 50 and kd = 0] hc
    by simp
  have c4: "set_impedance_gains 40 400 300 1600 128 False ?c = (Inl ValueError, ?c)"
    using gains_checked_before_device_write
      [where s = ?c and kp = 40 and ki = 400 and K = 300 and B = 1600 and ff = 128] hc
    by simp
  have p1: "set_position_gains 1000 0 1001 True ?p = (Inl AssertionError, ?p)"
    using gains_checked_before_device_write
      [where s = ?p and kp = 1000 and ki = 0 and kd = 1001 and force = True] hp
    by simp
  have p2: "set_current_gains 40 400 128 False ?p = (Inl ValueError, ?p)"
    using gains_checked_before_device_write
      [where s = ?p and kp = 40 and ki = 400 and ff = 128] hp
    by simp
  have i1: "set_impedance_gains 40 400 300 1600 128 True ?i =
       (Inr (), (DephyActpack_init None)
          \<lparr>self_mode := IMPEDANCE, device_log := [SetGains 40 400 0 300 1600 128],
           has_gains := (has_gains (DephyActpack_init None))(IMPEDANCE := True)\<rparr>)"
    using gains_checked_before_device_write
      [where s = ?i and kp = 40 and ki = 400 and K = 300 and B = 1600 and ff = 128
         and force = True] hi l
    by simp
  show ?thesis
    using hc(1) hp(1) hi c1 c2 c3 c4 p1 p2 i1 by blast
qed

end
